theory Spec2Isabelle
  imports Main "HOL-Library.Word"
begin

section \<open>The authorization builder (internal/handlers/handler_authz_builder.go)\<close>

subsection \<open>Data model\<close>

text \<open>
  Go's \<open>time.Duration\<close> is a signed 64-bit count of nanoseconds; \<open>time.Second\<close> is
  \<open>1000000000\<close>. The builder only multiplies \<open>time.Second\<close> by the constants \<open>-1\<close>
  and \<open>0\<close>.
\<close>

type_synonym Duration = "64 word"

definition time_Second :: Duration where
  "time_Second = 1000000000"

text \<open>
  \<open>AuthzImplementation\<close>: the three named constants that the builder assigns and
  switches on, and \<open>AuthzImplOther\<close> for every further value of the Go type, which the
  \<open>switch\<close> statements of \<open>Build\<close> send to \<open>default\<close> (or to no case at all).
\<close>

datatype AuthzImplementation =
    AuthzImplLegacy
  | AuthzImplForwardAuth
  | AuthzImplAuthRequest
  | AuthzImplOther nat

text \<open>
  Modelled from the spec: the strategy types and their constructors
  (\<open>NewCookieSessionAuthnStrategy\<close>, \<open>NewHeaderAuthorizationAuthnStrategy\<close>, ...) are
  declared outside these files. The spec gives an \<open>AuthnStrategy\<close> instance a variant tag
  out of five and, for \<open>CookieSession\<close>, a bound refresh interval.
\<close>

datatype AuthnStrategy =
    CookieSessionAuthnStrategy Duration
  | HeaderAuthorizationAuthnStrategy
  | HeaderProxyAuthorizationAuthnStrategy
  | HeaderAuthRequestProxyAuthorizationAuthnStrategy
  | HeaderLegacyAuthnStrategy

definition NewCookieSessionAuthnStrategy :: "Duration \<Rightarrow> AuthnStrategy" where
  "NewCookieSessionAuthnStrategy refreshInterval = CookieSessionAuthnStrategy refreshInterval"

definition NewHeaderAuthorizationAuthnStrategy :: AuthnStrategy where
  "NewHeaderAuthorizationAuthnStrategy = HeaderAuthorizationAuthnStrategy"

definition NewHeaderProxyAuthorizationAuthnStrategy :: AuthnStrategy where
  "NewHeaderProxyAuthorizationAuthnStrategy = HeaderProxyAuthorizationAuthnStrategy"

definition NewHeaderAuthRequestProxyAuthorizationAuthnStrategy :: AuthnStrategy where
  "NewHeaderAuthRequestProxyAuthorizationAuthnStrategy =
     HeaderAuthRequestProxyAuthorizationAuthnStrategy"

definition NewHeaderLegacyAuthnStrategy :: AuthnStrategy where
  "NewHeaderLegacyAuthnStrategy = HeaderLegacyAuthnStrategy"

text \<open>
  \<open>AuthzDomain\<close> and \<open>AuthzConfig\<close>. \<open>PortalURL\<close> is a \<open>*url.URL\<close>: \<open>None\<close> is
  \<open>nil\<close>. A nil slice and an empty slice are both \<open>[]\<close>; the builder only ever takes
  their length.
\<close>

record AuthzDomain =
  Name :: string
  PortalURL :: "string option"

record AuthzConfig =
  RefreshInterval :: Duration
  Domains :: "AuthzDomain list"

record AuthzBuilder =
  config :: AuthzConfig
  impl :: AuthzImplementation
  strategies :: "AuthnStrategy list"

text \<open>
  The function values that \<open>Build\<close> stores in an \<open>Authz\<close>, by name. A field that no
  statement assigns keeps Go's zero value \<open>nil\<close>, here \<open>None\<close>.
\<close>

datatype AuthzHandlerFunc =
    authzObjectVerifyStandard
  | authzHandleAuthorizedStandard
  | authzGetObjectImplLegacy
  | authzHandleUnauthorizedImplLegacy
  | authzGetObjectImplForwardAuth
  | authzHandleUnauthorizedImplForwardAuth
  | authzGetObjectImplAuthRequest
  | authzHandleUnauthorizedImplAuthRequest

record Authz =
  authz_config :: AuthzConfig
  authz_strategies :: "AuthnStrategy list"
  fObjectGet :: "AuthzHandlerFunc option"
  fObjectVerify :: "AuthzHandlerFunc option"
  fHandleAuthorized :: "AuthzHandlerFunc option"
  fHandleUnauthorized :: "AuthzHandlerFunc option"

text \<open>
  The parts of \<open>schema.Configuration\<close> and \<open>schema.ServerAuthzEndpointConfig\<close> that the
  builder reads: \<open>config.AuthenticationBackend.RefreshInterval\<close>, \<open>config.Session.Domain\<close>,
  \<open>config.Implementation\<close> and, of each entry of \<open>config.AuthnStrategies\<close>, its \<open>Name\<close>.
\<close>

record schema_Configuration =
  AuthenticationBackend_RefreshInterval :: string
  Session_Domain :: string

record schema_ServerAuthzEndpointAuthnStrategy =
  strategy_Name :: string

record schema_ServerAuthzEndpointConfig =
  Implementation :: string
  AuthnStrategies :: "schema_ServerAuthzEndpointAuthnStrategy list"

text \<open>
  What the builder uses and these files do not declare, taken as a parameter: the
  \<open>String\<close> method of \<open>AuthzImplementation\<close> and the zero value of that type, the five
  strategy-name constants, the two refresh-policy constants of package \<open>schema\<close>, and
  \<open>utils.ParseDurationString\<close> (its second result is the error, \<open>None\<close> for \<open>nil\<close>).
\<close>

record Extern =
  AuthzImplementation_String :: "AuthzImplementation \<Rightarrow> string"
  AuthzImplementation_zero :: AuthzImplementation
  AuthnStrategyCookieSession :: string
  AuthnStrategyHeaderAuthorization :: string
  AuthnStrategyHeaderProxyAuthorization :: string
  AuthnStrategyHeaderAuthRequestProxyAuthorization :: string
  AuthnStrategyHeaderLegacy :: string
  ProfileRefreshDisabled :: string
  ProfileRefreshAlways :: string
  ParseDurationString :: "string \<Rightarrow> Duration \<times> string option"

subsection \<open>The builder's methods\<close>

text \<open>
  Every method mutates the builder it is called on and returns it: the model takes the
  builder and returns the updated one. Calls to the logger are left out.
\<close>

definition NewAuthzBuilder :: "Extern \<Rightarrow> AuthzBuilder" where
  "NewAuthzBuilder x =
     \<lparr>config = \<lparr>RefreshInterval = time_Second * - 1, Domains = []\<rparr>,
      impl = AuthzImplementation_zero x,
      strategies = []\<rparr>"

definition WithStrategies :: "AuthnStrategy list \<Rightarrow> AuthzBuilder \<Rightarrow> AuthzBuilder" where
  "WithStrategies strats b = b\<lparr>strategies := strats\<rparr>"

definition WithStrategyCookie :: "Duration \<Rightarrow> AuthzBuilder \<Rightarrow> AuthzBuilder" where
  "WithStrategyCookie refreshInterval b =
     b\<lparr>strategies := strategies b @ [NewCookieSessionAuthnStrategy refreshInterval]\<rparr>"


definition WithStrategyProxyAuthorization :: "AuthzBuilder \<Rightarrow> AuthzBuilder" where
  "WithStrategyProxyAuthorization b =
     b\<lparr>strategies := strategies b @ [NewHeaderProxyAuthorizationAuthnStrategy]\<rparr>"

definition WithImplementationLegacy :: "AuthzBuilder \<Rightarrow> AuthzBuilder" where
  "WithImplementationLegacy b = b\<lparr>impl := AuthzImplLegacy\<rparr>"

definition WithImplementationForwardAuth :: "AuthzBuilder \<Rightarrow> AuthzBuilder" where
  "WithImplementationForwardAuth b = b\<lparr>impl := AuthzImplForwardAuth\<rparr>"

definition WithImplementationAuthRequest :: "AuthzBuilder \<Rightarrow> AuthzBuilder" where
  "WithImplementationAuthRequest b = b\<lparr>impl := AuthzImplAuthRequest\<rparr>"

text \<open>
  \<open>WithConfig\<close>: a nil pointer is \<open>None\<close>. The error of \<open>ParseDurationString\<close> is
  discarded, as the source does with \<open>_\<close>.
\<close>

definition WithConfig ::
  "Extern \<Rightarrow> schema_Configuration option \<Rightarrow> AuthzBuilder \<Rightarrow> AuthzBuilder" where
  "WithConfig x cfg b =
     (case cfg of
        None \<Rightarrow> b
      | Some c \<Rightarrow>
          (let refreshInterval =
                 (if AuthenticationBackend_RefreshInterval c = ProfileRefreshDisabled x
                    then time_Second * - 1
                  else if AuthenticationBackend_RefreshInterval c = ProfileRefreshAlways x
                    then time_Second * 0
                  else fst (ParseDurationString x (AuthenticationBackend_RefreshInterval c)))
           in b\<lparr>config :=
                  \<lparr>RefreshInterval = refreshInterval,
                   Domains = [\<lparr>Name = ''.'' @ Session_Domain c, PortalURL = None\<rparr>]\<rparr>\<rparr>))"

definition WithAuthzConfig :: "AuthzConfig \<Rightarrow> AuthzBuilder \<Rightarrow> AuthzBuilder" where
  "WithAuthzConfig c b = b\<lparr>config := c\<rparr>"

text \<open>
  \<open>WithEndpointConfig\<close>: the switch on the implementation name, \<open>b.WithStrategies()\<close>
  with no argument, then the loop over \<open>config.AuthnStrategies\<close>. One iteration of the
  loop is \<open>addStrategy\<close>; a name that matches no case leaves the builder as it is.
\<close>

definition addStrategy ::
  "Extern \<Rightarrow> schema_ServerAuthzEndpointAuthnStrategy \<Rightarrow> AuthzBuilder \<Rightarrow> AuthzBuilder" where
  "addStrategy x strategy b =
     (if strategy_Name strategy = AuthnStrategyCookieSession x then
        b\<lparr>strategies :=
            strategies b @ [NewCookieSessionAuthnStrategy (RefreshInterval (config b))]\<rparr>
      else if strategy_Name strategy = AuthnStrategyHeaderAuthorization x then
        b\<lparr>strategies := strategies b @ [NewHeaderAuthorizationAuthnStrategy]\<rparr>
      else if strategy_Name strategy = AuthnStrategyHeaderProxyAuthorization x then
        b\<lparr>strategies := strategies b @ [NewHeaderProxyAuthorizationAuthnStrategy]\<rparr>
      else if strategy_Name strategy = AuthnStrategyHeaderAuthRequestProxyAuthorization x then
        b\<lparr>strategies := strategies b @ [NewHeaderAuthRequestProxyAuthorizationAuthnStrategy]\<rparr>
      else if strategy_Name strategy = AuthnStrategyHeaderLegacy x then
        b\<lparr>strategies := strategies b @ [NewHeaderLegacyAuthnStrategy]\<rparr>
      else b)"

fun addStrategies ::
  "Extern \<Rightarrow> schema_ServerAuthzEndpointAuthnStrategy list \<Rightarrow> AuthzBuilder \<Rightarrow> AuthzBuilder" where
  "addStrategies x [] b = b"
| "addStrategies x (strategy # rest) b = addStrategies x rest (addStrategy x strategy b)"

definition selectImplementation :: "Extern \<Rightarrow> string \<Rightarrow> AuthzBuilder \<Rightarrow> AuthzBuilder" where
  "selectImplementation x name b =
     (if name = AuthzImplementation_String x AuthzImplForwardAuth then
        WithImplementationForwardAuth b
      else if name = AuthzImplementation_String x AuthzImplAuthRequest then
        WithImplementationAuthRequest b
      else WithImplementationLegacy b)"

definition WithEndpointConfig ::
  "Extern \<Rightarrow> schema_ServerAuthzEndpointConfig \<Rightarrow> AuthzBuilder \<Rightarrow> AuthzBuilder" where
  "WithEndpointConfig x ec b =
     addStrategies x (AuthnStrategies ec)
       (WithStrategies [] (selectImplementation x (Implementation ec) b))"

text \<open>
  \<open>Build\<close>. The loop over \<open>b.strategies\<close> only logs. The defaults are installed when
  the strategy list has length 0; the second switch has no \<open>default\<close>, so a value other
  than the three constants leaves \<open>fObjectGet\<close> and \<open>fHandleUnauthorized\<close> nil.
\<close>

definition defaultStrategies :: "AuthzBuilder \<Rightarrow> AuthnStrategy list" where
  "defaultStrategies b =
     (case impl b of
        AuthzImplLegacy \<Rightarrow>
          [NewHeaderLegacyAuthnStrategy,
           NewCookieSessionAuthnStrategy (RefreshInterval (config b))]
      | AuthzImplAuthRequest \<Rightarrow>
          [NewHeaderAuthRequestProxyAuthorizationAuthnStrategy,
           NewCookieSessionAuthnStrategy (RefreshInterval (config b))]
      | _ \<Rightarrow>
          [NewHeaderProxyAuthorizationAuthnStrategy,
           NewCookieSessionAuthnStrategy (RefreshInterval (config b))])"

definition Build :: "AuthzBuilder \<Rightarrow> Authz" where
  "Build b =
     (let authz = \<lparr>authz_config = config b,
                   authz_strategies = strategies b,
                   fObjectGet = None,
                   fObjectVerify = Some authzObjectVerifyStandard,
                   fHandleAuthorized = Some authzHandleAuthorizedStandard,
                   fHandleUnauthorized = None\<rparr>;
          authz = (if length (authz_strategies authz) = 0
                   then authz\<lparr>authz_strategies := defaultStrategies b\<rparr>
                   else authz)
      in (case impl b of
            AuthzImplLegacy \<Rightarrow>
              authz\<lparr>fObjectGet := Some authzGetObjectImplLegacy,
                    fHandleUnauthorized := Some authzHandleUnauthorizedImplLegacy\<rparr>
          | AuthzImplForwardAuth \<Rightarrow>
              authz\<lparr>fObjectGet := Some authzGetObjectImplForwardAuth,
                    fHandleUnauthorized := Some authzHandleUnauthorizedImplForwardAuth\<rparr>
          | AuthzImplAuthRequest \<Rightarrow>
              authz\<lparr>fObjectGet := Some authzGetObjectImplAuthRequest,
                    fHandleUnauthorized := Some authzHandleUnauthorizedImplAuthRequest\<rparr>
          | AuthzImplOther _ \<Rightarrow> authz))"

text \<open>
  One instance of the declarations taken as a parameter, on which the theorems below are
  evaluated: the names of the spec's configuration surface, and a duration parser that
  knows two strings. No theorem depends on it.
\<close>

definition example_extern :: Extern where
  "example_extern =
     \<lparr>AuthzImplementation_String =
        (\<lambda>i. case i of
                AuthzImplLegacy \<Rightarrow> ''legacy''
              | AuthzImplForwardAuth \<Rightarrow> ''forward-auth''
              | AuthzImplAuthRequest \<Rightarrow> ''auth-request''
              | AuthzImplOther _ \<Rightarrow> ''''),
      AuthzImplementation_zero = AuthzImplLegacy,
      AuthnStrategyCookieSession = ''CookieSession'',
      AuthnStrategyHeaderAuthorization = ''HeaderAuthorization'',
      AuthnStrategyHeaderProxyAuthorization = ''HeaderProxyAuthorization'',
      AuthnStrategyHeaderAuthRequestProxyAuthorization = ''HeaderAuthRequestProxyAuthorization'',
      AuthnStrategyHeaderLegacy = ''HeaderLegacy'',
      ProfileRefreshDisabled = ''disabled'',
      ProfileRefreshAlways = ''always'',
      ParseDurationString =
        (\<lambda>s. if s = ''5m'' then (300 * time_Second, None)
             else if s = ''1h'' then (3600 * time_Second, None)
             else (0, Some ''could not parse duration string''))\<rparr>"

section \<open>Errors\<close>

text \<open>
  Go error values: the sentinel \<open>sql.ErrNoRows\<close>, any other plain error with its
  message, and an error made by \<open>fmt.Errorf\<close> with the verb \<open>%w\<close>, which carries the
  formatted message and the error it wraps. \<open>errors.Is\<close> walks the chain of wrapped
  errors and compares each with the target.
\<close>

datatype error =
    sql_ErrNoRows
  | errors_New string
  | fmt_Errorf_w string error

fun error_Error :: "error \<Rightarrow> string" where
  "error_Error sql_ErrNoRows = ''sql: no rows in result set''"
| "error_Error (errors_New msg) = msg"
| "error_Error (fmt_Errorf_w msg e) = msg"

fun errors_Unwrap :: "error \<Rightarrow> error option" where
  "errors_Unwrap (fmt_Errorf_w msg e) = Some e"
| "errors_Unwrap e = None"

fun errors_Is :: "error \<Rightarrow> error \<Rightarrow> bool" where
  "errors_Is (fmt_Errorf_w msg e) target =
     (fmt_Errorf_w msg e = target \<or> errors_Is e target)"
| "errors_Is e target = (e = target)"

section \<open>WebAuthn users (internal/handlers/webauthn.go)\<close>

text \<open>
  The fields of \<open>session.UserSession\<close> that \<open>getWebAuthnUser\<close> reads, and
  \<open>models.WebauthnUser\<close>. The devices are whatever the storage provider returns.
\<close>

record UserSession =
  session_Username :: string
  session_DisplayName :: string

record 'device WebauthnUser =
  Username :: string
  DisplayName :: string
  Devices :: "'device list"

text \<open>
  \<open>getWebAuthnUser\<close>. The storage provider of the context is the function
  \<open>LoadWebauthnDevicesByUsername\<close>, from a username to the devices or an error. The Go
  function returns \<open>(nil, err)\<close> on an error, here \<open>Inl err\<close>, and \<open>(user, nil)\<close>
  otherwise, here \<open>Inr user\<close>.
\<close>

definition getWebAuthnUser ::
  "(string \<Rightarrow> error + 'device list) \<Rightarrow> UserSession \<Rightarrow> error + 'device WebauthnUser" where
  "getWebAuthnUser LoadWebauthnDevicesByUsername userSession =
     (let user = \<lparr>Username = session_Username userSession,
                  DisplayName = session_DisplayName userSession,
                  Devices = []\<rparr>;
          user = (if DisplayName user = [] then user\<lparr>DisplayName := Username user\<rparr>
                  else user)
      in (case LoadWebauthnDevicesByUsername (session_Username userSession) of
            Inl err \<Rightarrow> Inl err
          | Inr devices \<Rightarrow> Inr (user\<lparr>Devices := devices\<rparr>)))"

section \<open>The SQL storage provider (internal/storage/sql_provider.go)\<close>

text \<open>
  Of the provider, \<open>LoadPreferred2FAMethod\<close> uses the database handle and one query
  string. \<open>db_GetContext\<close> stands for \<open>p.db.GetContext\<close> scanning a single string: from
  the query and its arguments to the error, or to the value written to \<open>method\<close>.
\<close>

record SQLProvider =
  db_GetContext :: "string \<Rightarrow> string list \<Rightarrow> error + string"
  sqlSelectPreferred2FAMethod :: string

text \<open>
  \<open>LoadPreferred2FAMethod\<close> returns the pair \<open>(method, err)\<close>; \<open>None\<close> is a nil error
  and \<open>[]\<close> the empty string. The message of the wrapping error is the format string
  with the username and the text of the wrapped error filled in.
\<close>

definition LoadPreferred2FAMethod :: "SQLProvider \<Rightarrow> string \<Rightarrow> string \<times> error option" where
  "LoadPreferred2FAMethod p username =
     (case db_GetContext p (sqlSelectPreferred2FAMethod p) [username] of
        Inr method \<Rightarrow> (method, None)
      | Inl err \<Rightarrow>
          (if errors_Is err sql_ErrNoRows then ([], None)
           else ([],
                 Some (fmt_Errorf_w
                         (''error selecting preferred two factor method for user ''
                            @ [CHR 0x27] @ username @ [CHR 0x27] @ '': '' @ error_Error err)
                         err))))"

section \<open>The strategy list of an endpoint, as the specification words it\<close>

text \<open>
  The specification describes the list that \<open>WithEndpointConfig\<close> leaves in the
  builder: one strategy per entry of the endpoint's list whose name is one of the five
  recognized names, in the order of the list, and nothing for any other name.
  \<open>strategyNamed\<close> is the strategy that a name stands for, \<open>recognisedStrategyName\<close>
  says whether a name is one of the five, and \<open>endpointStrategies\<close> is the list. The
  theorems below compare the loop of the source with it.
\<close>

definition strategyNamed :: "Extern \<Rightarrow> Duration \<Rightarrow> string \<Rightarrow> AuthnStrategy option" where
  "strategyNamed x refreshInterval name =
     (if name = AuthnStrategyCookieSession x then
        Some (CookieSessionAuthnStrategy refreshInterval)
      else if name = AuthnStrategyHeaderAuthorization x then
        Some HeaderAuthorizationAuthnStrategy
      else if name = AuthnStrategyHeaderProxyAuthorization x then
        Some HeaderProxyAuthorizationAuthnStrategy
      else if name = AuthnStrategyHeaderAuthRequestProxyAuthorization x then
        Some HeaderAuthRequestProxyAuthorizationAuthnStrategy
      else if name = AuthnStrategyHeaderLegacy x then
        Some HeaderLegacyAuthnStrategy
      else None)"


definition endpointStrategies :: "Extern \<Rightarrow> Duration \<Rightarrow> string list \<Rightarrow> AuthnStrategy list" where
  "endpointStrategies x refreshInterval names =
     List.map_filter (strategyNamed x refreshInterval) names"

section \<open>Auxiliary facts\<close>

lemmas New_defs =
  NewCookieSessionAuthnStrategy_def NewHeaderAuthorizationAuthnStrategy_def
  NewHeaderProxyAuthorizationAuthnStrategy_def
  NewHeaderAuthRequestProxyAuthorizationAuthnStrategy_def NewHeaderLegacyAuthnStrategy_def

lemma addStrategy_config: "config (addStrategy x s b) = config b"
  by (simp add: addStrategy_def)

lemma addStrategy_impl: "impl (addStrategy x s b) = impl b"
  by (simp add: addStrategy_def)

lemma addStrategy_strategies:
  "strategies (addStrategy x s b) =
     strategies b @ endpointStrategies x (RefreshInterval (config b)) [strategy_Name s]"
  by (simp add: addStrategy_def endpointStrategies_def map_filter_simps
      strategyNamed_def New_defs)

lemma addStrategies_config: "config (addStrategies x ss b) = config b"
  by (induction ss arbitrary: b) (simp_all add: addStrategy_config)

lemma addStrategies_impl: "impl (addStrategies x ss b) = impl b"
  by (induction ss arbitrary: b) (simp_all add: addStrategy_impl)

lemma endpointStrategies_Cons:
  "endpointStrategies x r (n # ns) = endpointStrategies x r [n] @ endpointStrategies x r ns"
  by (simp add: endpointStrategies_def map_filter_simps split: option.split)

lemma addStrategies_strategies:
  "strategies (addStrategies x ss b) =
     strategies b @ endpointStrategies x (RefreshInterval (config b)) (map strategy_Name ss)"
proof (induction ss arbitrary: b)
  case Nil
  show ?case by (simp add: endpointStrategies_def map_filter_simps)
next
  case (Cons s ss)
  have "strategies (addStrategies x (s # ss) b) =
          strategies (addStrategy x s b) @
            endpointStrategies x (RefreshInterval (config b)) (map strategy_Name ss)"
    by (simp add: Cons.IH addStrategy_config)
  also have "\<dots> = strategies b @
      endpointStrategies x (RefreshInterval (config b)) (map strategy_Name (s # ss))"
    using endpointStrategies_Cons [of x "RefreshInterval (config b)" "strategy_Name s" "map strategy_Name ss"]
    by (simp add: addStrategy_strategies)
  finally show ?case .
qed

lemma selectImplementation_config: "config (selectImplementation x n b) = config b"
  by (simp add: selectImplementation_def WithImplementationForwardAuth_def
      WithImplementationAuthRequest_def WithImplementationLegacy_def)

lemma WithEndpointConfig_config: "config (WithEndpointConfig x ec b) = config b"
  by (simp add: WithEndpointConfig_def addStrategies_config WithStrategies_def
      selectImplementation_config)

lemma WithEndpointConfig_impl_eq:
  "impl (WithEndpointConfig x ec b) = impl (selectImplementation x (Implementation ec) b)"
  by (simp add: WithEndpointConfig_def addStrategies_impl WithStrategies_def)

lemma WithEndpointConfig_strategies_eq:
  "strategies (WithEndpointConfig x ec b) =
     endpointStrategies x (RefreshInterval (config b)) (map strategy_Name (AuthnStrategies ec))"
  by (simp add: WithEndpointConfig_def addStrategies_strategies WithStrategies_def
      selectImplementation_config)

lemma Build_strategies:
  "authz_strategies (Build b) = (if strategies b = [] then defaultStrategies b else strategies b)"
  by (cases "impl b") (simp_all add: Build_def Let_def)



lemma in_set_map_filter:
  "(y \<in> set (List.map_filter f xs)) = (\<exists>x \<in> set xs. f x = Some y)"
  by (induction xs) (auto simp: map_filter_simps split: option.splits)

lemma strategyNamed_cookie:
  "strategyNamed x r n = Some (CookieSessionAuthnStrategy r') \<Longrightarrow> r' = r"
  by (simp add: strategyNamed_def split: if_splits)

lemma strategyNamed_cookie_name:
  "strategyNamed x r (AuthnStrategyCookieSession x) = Some (CookieSessionAuthnStrategy r)"
  by (simp add: strategyNamed_def)

lemma set_endpointStrategies_cookie:
  "CookieSessionAuthnStrategy r' \<in> set (endpointStrategies x r ns) \<Longrightarrow> r' = r"
  unfolding endpointStrategies_def in_set_map_filter
  by (blast dest: strategyNamed_cookie)

lemma cookie_in_endpointStrategies:
  "AuthnStrategyCookieSession x \<in> set ns \<Longrightarrow>
     CookieSessionAuthnStrategy r \<in> set (endpointStrategies x r ns)"
  unfolding endpointStrategies_def in_set_map_filter
  by (blast intro: strategyNamed_cookie_name)

lemma WithConfig_strategies: "strategies (WithConfig x cfg b) = strategies b"
  by (simp add: WithConfig_def Let_def split: option.split)

lemma minus_one_second: "sint (time_Second * - 1) = - 1000000000"
  by (simp add: time_Second_def)


lemma errors_Is_refl: "errors_Is e e"
  by (cases e) simp_all

section \<open>Properties of the builder\<close>



text \<open>
  C2, as amended. For every endpoint configuration whose implementation name is neither
  the name of \<open>AuthzImplForwardAuth\<close> nor the name of \<open>AuthzImplAuthRequest\<close> (so
  for every unrecognized name) and whose strategy list is empty, \<open>WithEndpointConfig\<close>
  followed by \<open>Build\<close> yields \<open>[HeaderLegacy, CookieSession]\<close>, whatever the builder
  held before: an unrecognized implementation name is treated as the legacy one. The
  \<open>CookieSession\<close> strategy carries the \<open>RefreshInterval\<close> of the builder's config.
\<close>

theorem WithEndpointConfig_unrecognized_Build:
  assumes "Implementation ec \<noteq> AuthzImplementation_String x AuthzImplForwardAuth"
    and "Implementation ec \<noteq> AuthzImplementation_String x AuthzImplAuthRequest"
    and "AuthnStrategies ec = []"
  shows "authz_strategies (Build (WithEndpointConfig x ec b)) =
           [HeaderLegacyAuthnStrategy,
            CookieSessionAuthnStrategy (RefreshInterval (config b))]"
proof -
  have i: "impl (WithEndpointConfig x ec b) = AuthzImplLegacy"
    using assms(1,2)
    by (simp add: WithEndpointConfig_impl_eq selectImplementation_def
        WithImplementationLegacy_def)
  have s: "strategies (WithEndpointConfig x ec b) = []"
    using assms(3)
    by (simp add: WithEndpointConfig_strategies_eq endpointStrategies_def map_filter_simps)
  show ?thesis
    by (simp add: Build_strategies s defaultStrategies_def i WithEndpointConfig_config New_defs)
qed

theorem WithEndpointConfig_unrecognized_Build_witness:
  "authz_strategies
     (Build (WithEndpointConfig example_extern
               \<lparr>Implementation = ''nginx'', AuthnStrategies = []\<rparr>
               (WithAuthzConfig \<lparr>RefreshInterval = 0, Domains = []\<rparr>
                  (NewAuthzBuilder example_extern)))) =
     [HeaderLegacyAuthnStrategy, CookieSessionAuthnStrategy 0]"
  using WithEndpointConfig_unrecognized_Build
    [of "\<lparr>Implementation = ''nginx'', AuthnStrategies = []\<rparr>" example_extern
        "WithAuthzConfig \<lparr>RefreshInterval = 0, Domains = []\<rparr> (NewAuthzBuilder example_extern)"]
  by (simp add: example_extern_def WithAuthzConfig_def)

text \<open>
  C2, as first stated, says that such a configuration yields
  \<open>[HeaderProxyAuthorization, CookieSession]\<close>. That fails: with the unrecognized
  name \<open>ext-authz\<close> and no strategy, a builder that had even been set to ForwardAuth
  before builds \<open>[HeaderLegacy, CookieSession]\<close>.
\<close>

theorem WithEndpointConfig_unrecognized_counterexample:
  "authz_strategies
     (Build (WithEndpointConfig example_extern
               \<lparr>Implementation = ''ext-authz'', AuthnStrategies = []\<rparr>
               (WithImplementationForwardAuth (NewAuthzBuilder example_extern)))) =
     [HeaderLegacyAuthnStrategy, CookieSessionAuthnStrategy (- 1000000000)] \<and>
   authz_strategies
     (Build (WithEndpointConfig example_extern
               \<lparr>Implementation = ''ext-authz'', AuthnStrategies = []\<rparr>
               (WithImplementationForwardAuth (NewAuthzBuilder example_extern)))) \<noteq>
     [HeaderProxyAuthorizationAuthnStrategy, CookieSessionAuthnStrategy (- 1000000000)]"
  by (simp add: Build_def WithEndpointConfig_def selectImplementation_def WithStrategies_def
      WithImplementationForwardAuth_def WithImplementationAuthRequest_def
      WithImplementationLegacy_def NewAuthzBuilder_def example_extern_def defaultStrategies_def
      New_defs time_Second_def)

text \<open>
  C3. \<open>WithEndpointConfig\<close> selects the implementation from the implementation name
  of the endpoint configuration: ForwardAuth for the name of \<open>AuthzImplForwardAuth\<close>,
  AuthRequest for the name of \<open>AuthzImplAuthRequest\<close>, and Legacy whenever the name is
  neither of the two, so for every unrecognized name.
\<close>

theorem WithEndpointConfig_selects_impl:
  "(Implementation ec = AuthzImplementation_String x AuthzImplForwardAuth \<longrightarrow>
      impl (WithEndpointConfig x ec b) = AuthzImplForwardAuth) \<and>
   (Implementation ec \<noteq> AuthzImplementation_String x AuthzImplForwardAuth \<and>
    Implementation ec = AuthzImplementation_String x AuthzImplAuthRequest \<longrightarrow>
      impl (WithEndpointConfig x ec b) = AuthzImplAuthRequest) \<and>
   (Implementation ec \<noteq> AuthzImplementation_String x AuthzImplForwardAuth \<and>
    Implementation ec \<noteq> AuthzImplementation_String x AuthzImplAuthRequest \<longrightarrow>
      impl (WithEndpointConfig x ec b) = AuthzImplLegacy)"
  by (simp add: WithEndpointConfig_impl_eq selectImplementation_def
      WithImplementationForwardAuth_def WithImplementationAuthRequest_def
      WithImplementationLegacy_def)

theorem WithEndpointConfig_selects_impl_witness:
  "impl (WithEndpointConfig example_extern
           \<lparr>Implementation = ''forward-auth'', AuthnStrategies = []\<rparr>
           (NewAuthzBuilder example_extern)) = AuthzImplForwardAuth \<and>
   impl (WithEndpointConfig example_extern
           \<lparr>Implementation = ''auth-request'', AuthnStrategies = []\<rparr>
           (NewAuthzBuilder example_extern)) = AuthzImplAuthRequest \<and>
   impl (WithEndpointConfig example_extern
           \<lparr>Implementation = ''legacy'', AuthnStrategies = []\<rparr>
           (WithImplementationAuthRequest (NewAuthzBuilder example_extern))) = AuthzImplLegacy \<and>
   impl (WithEndpointConfig example_extern
           \<lparr>Implementation = ''ext-authz'', AuthnStrategies = []\<rparr>
           (WithImplementationAuthRequest (NewAuthzBuilder example_extern))) = AuthzImplLegacy"
  using
    WithEndpointConfig_selects_impl
      [of "\<lparr>Implementation = ''forward-auth'', AuthnStrategies = []\<rparr>" example_extern
          "NewAuthzBuilder example_extern"]
    WithEndpointConfig_selects_impl
      [of "\<lparr>Implementation = ''auth-request'', AuthnStrategies = []\<rparr>" example_extern
          "NewAuthzBuilder example_extern"]
    WithEndpointConfig_selects_impl
      [of "\<lparr>Implementation = ''legacy'', AuthnStrategies = []\<rparr>" example_extern
          "WithImplementationAuthRequest (NewAuthzBuilder example_extern)"]
    WithEndpointConfig_selects_impl
      [of "\<lparr>Implementation = ''ext-authz'', AuthnStrategies = []\<rparr>" example_extern
          "WithImplementationAuthRequest (NewAuthzBuilder example_extern)"]
  by (simp add: example_extern_def)

text \<open>
  C4. When the endpoint configuration names the \<open>CookieSession\<close> strategy, the list
  left by \<open>WithEndpointConfig\<close> holds a \<open>CookieSession\<close> strategy bound to the
  \<open>RefreshInterval\<close> that the builder's config has at the call, and every
  \<open>CookieSession\<close> strategy of the list is bound to that interval. On a fresh builder,
  on which \<open>WithConfig\<close> has not been called, the interval is that of
  \<open>NewAuthzBuilder\<close>, minus one second. A later call of \<open>WithConfig\<close> leaves the
  strategies, and so their intervals, as they are.
\<close>

theorem WithEndpointConfig_cookie_interval:
  assumes "\<exists>s \<in> set (AuthnStrategies ec). strategy_Name s = AuthnStrategyCookieSession x"
  shows "CookieSessionAuthnStrategy (RefreshInterval (config b))
           \<in> set (strategies (WithEndpointConfig x ec b)) \<and>
         (\<forall>r. CookieSessionAuthnStrategy r \<in> set (strategies (WithEndpointConfig x ec b)) \<longrightarrow>
                r = RefreshInterval (config b)) \<and>
         (\<forall>r. CookieSessionAuthnStrategy r
                  \<in> set (strategies (WithEndpointConfig x ec (NewAuthzBuilder x))) \<longrightarrow>
                r = - 1000000000) \<and>
         CookieSessionAuthnStrategy (- 1000000000)
           \<in> set (strategies (WithEndpointConfig x ec (NewAuthzBuilder x))) \<and>
         strategies (WithConfig x cfg (WithEndpointConfig x ec b)) =
           strategies (WithEndpointConfig x ec b)"
proof -
  from assms obtain s where "s \<in> set (AuthnStrategies ec)"
    and "strategy_Name s = AuthnStrategyCookieSession x"
    by blast
  then have n: "AuthnStrategyCookieSession x \<in> set (map strategy_Name (AuthnStrategies ec))"
    by (metis image_eqI set_map)
  have f: "RefreshInterval (config (NewAuthzBuilder x)) = - 1000000000"
    by (simp add: NewAuthzBuilder_def time_Second_def)
  have a: "CookieSessionAuthnStrategy (RefreshInterval (config b'))
           \<in> set (strategies (WithEndpointConfig x ec b'))" for b'
    unfolding WithEndpointConfig_strategies_eq by (rule cookie_in_endpointStrategies [OF n])
  have c: "CookieSessionAuthnStrategy r \<in> set (strategies (WithEndpointConfig x ec b')) \<Longrightarrow>
             r = RefreshInterval (config b')" for r b'
    unfolding WithEndpointConfig_strategies_eq by (rule set_endpointStrategies_cookie)
  have w: "strategies (WithConfig x cfg (WithEndpointConfig x ec b)) =
             strategies (WithEndpointConfig x ec b)"
    by (rule WithConfig_strategies)
  show ?thesis
  proof (intro conjI allI impI)
    show "CookieSessionAuthnStrategy (RefreshInterval (config b))
            \<in> set (strategies (WithEndpointConfig x ec b))"
      by (rule a)
    show "r = RefreshInterval (config b)"
      if "CookieSessionAuthnStrategy r \<in> set (strategies (WithEndpointConfig x ec b))" for r
      using that by (rule c)
    show "r = - 1000000000"
      if "CookieSessionAuthnStrategy r
            \<in> set (strategies (WithEndpointConfig x ec (NewAuthzBuilder x)))" for r
      using c [OF that] f by (simp only:)
    show "CookieSessionAuthnStrategy (- 1000000000)
            \<in> set (strategies (WithEndpointConfig x ec (NewAuthzBuilder x)))"
      using a [of "NewAuthzBuilder x"] f by (simp only:)
    show "strategies (WithConfig x cfg (WithEndpointConfig x ec b)) =
            strategies (WithEndpointConfig x ec b)"
      by (rule w)
  qed
qed

theorem WithEndpointConfig_cookie_interval_witness:
  "(\<exists>s \<in> set (AuthnStrategies
                \<lparr>Implementation = ''forward-auth'',
                 AuthnStrategies =
                   [\<lparr>strategy_Name = ''HeaderAuthorization''\<rparr>,
                    \<lparr>strategy_Name = ''CookieSession''\<rparr>]\<rparr>).
      strategy_Name s = AuthnStrategyCookieSession example_extern) \<and>
   CookieSessionAuthnStrategy (- 1000000000) \<in> set (strategies
     (WithConfig example_extern
        (Some \<lparr>AuthenticationBackend_RefreshInterval = ''5m'', Session_Domain = ''example.com''\<rparr>)
        (WithEndpointConfig example_extern
           \<lparr>Implementation = ''forward-auth'',
            AuthnStrategies =
              [\<lparr>strategy_Name = ''HeaderAuthorization''\<rparr>,
               \<lparr>strategy_Name = ''CookieSession''\<rparr>]\<rparr>
           (NewAuthzBuilder example_extern))))"
proof -
  have h: "\<exists>s \<in> set (AuthnStrategies
                \<lparr>Implementation = ''forward-auth'',
                 AuthnStrategies =
                   [\<lparr>strategy_Name = ''HeaderAuthorization''\<rparr>,
                    \<lparr>strategy_Name = ''CookieSession''\<rparr>]\<rparr>).
             strategy_Name s = AuthnStrategyCookieSession example_extern"
    by (simp add: example_extern_def)
  from WithEndpointConfig_cookie_interval [OF h, of "NewAuthzBuilder example_extern"
        "Some \<lparr>AuthenticationBackend_RefreshInterval = ''5m'', Session_Domain = ''example.com''\<rparr>"]
  have "CookieSessionAuthnStrategy (- 1000000000) \<in> set (strategies
     (WithConfig example_extern
        (Some \<lparr>AuthenticationBackend_RefreshInterval = ''5m'', Session_Domain = ''example.com''\<rparr>)
        (WithEndpointConfig example_extern
           \<lparr>Implementation = ''forward-auth'',
            AuthnStrategies =
              [\<lparr>strategy_Name = ''HeaderAuthorization''\<rparr>,
               \<lparr>strategy_Name = ''CookieSession''\<rparr>]\<rparr>
           (NewAuthzBuilder example_extern))))"
    by (simp only:)
  with h show ?thesis by (rule conjI)
qed



text \<open>
  C6. For a configuration that is not nil, \<open>WithConfig\<close> sets the config of the
  builder so that \<open>RefreshInterval\<close> is minus one second when the refresh policy is
  the disabled constant, 0 when it is the always constant (the two constants being
  different, as the cases of a Go switch are), and the duration that
  \<open>ParseDurationString\<close> returns otherwise; and \<open>Domains\<close> is exactly one domain,
  whose \<open>Name\<close> is the session domain after a leading dot and whose \<open>PortalURL\<close> is
  nil.
\<close>

theorem WithConfig_sets_config:
  "(AuthenticationBackend_RefreshInterval c = ProfileRefreshDisabled x \<longrightarrow>
      RefreshInterval (config (WithConfig x (Some c) b)) = - 1000000000) \<and>
   (AuthenticationBackend_RefreshInterval c = ProfileRefreshAlways x \<and>
    ProfileRefreshAlways x \<noteq> ProfileRefreshDisabled x \<longrightarrow>
      RefreshInterval (config (WithConfig x (Some c) b)) = 0) \<and>
   (AuthenticationBackend_RefreshInterval c \<noteq> ProfileRefreshDisabled x \<and>
    AuthenticationBackend_RefreshInterval c \<noteq> ProfileRefreshAlways x \<longrightarrow>
      RefreshInterval (config (WithConfig x (Some c) b)) =
        fst (ParseDurationString x (AuthenticationBackend_RefreshInterval c))) \<and>
   Domains (config (WithConfig x (Some c) b)) =
     [\<lparr>Name = ''.'' @ Session_Domain c, PortalURL = None\<rparr>]"
  by (simp add: WithConfig_def Let_def time_Second_def)

theorem WithConfig_sets_config_witness:
  "config (WithConfig example_extern
             (Some \<lparr>AuthenticationBackend_RefreshInterval = ''disabled'',
                    Session_Domain = ''example.com''\<rparr>)
             (NewAuthzBuilder example_extern)) =
     \<lparr>RefreshInterval = - 1000000000,
      Domains = [\<lparr>Name = ''.example.com'', PortalURL = None\<rparr>]\<rparr> \<and>
   config (WithConfig example_extern
             (Some \<lparr>AuthenticationBackend_RefreshInterval = ''always'',
                    Session_Domain = ''example.com''\<rparr>)
             (NewAuthzBuilder example_extern)) =
     \<lparr>RefreshInterval = 0,
      Domains = [\<lparr>Name = ''.example.com'', PortalURL = None\<rparr>]\<rparr> \<and>
   config (WithConfig example_extern
             (Some \<lparr>AuthenticationBackend_RefreshInterval = ''5m'',
                    Session_Domain = ''example.com''\<rparr>)
             (NewAuthzBuilder example_extern)) =
     \<lparr>RefreshInterval = 300000000000,
      Domains = [\<lparr>Name = ''.example.com'', PortalURL = None\<rparr>]\<rparr>"
  using
    WithConfig_sets_config
      [of "\<lparr>AuthenticationBackend_RefreshInterval = ''disabled'',
             Session_Domain = ''example.com''\<rparr>" example_extern "NewAuthzBuilder example_extern"]
    WithConfig_sets_config
      [of "\<lparr>AuthenticationBackend_RefreshInterval = ''always'',
             Session_Domain = ''example.com''\<rparr>" example_extern "NewAuthzBuilder example_extern"]
    WithConfig_sets_config
      [of "\<lparr>AuthenticationBackend_RefreshInterval = ''5m'',
             Session_Domain = ''example.com''\<rparr>" example_extern "NewAuthzBuilder example_extern"]
  by (simp add: example_extern_def time_Second_def AuthzConfig.equality)

text \<open>
  C7. \<open>Build\<close> binds \<open>authzObjectVerifyStandard\<close> and
  \<open>authzHandleAuthorizedStandard\<close> whatever the implementation, so any two built
  \<open>Authz\<close> agree on \<open>fObjectVerify\<close> and \<open>fHandleAuthorized\<close>; \<open>fObjectGet\<close> and
  \<open>fHandleUnauthorized\<close> are those of the selected implementation, Legacy,
  ForwardAuth or AuthRequest.
\<close>

theorem Build_bindings:
  "fObjectVerify (Build b) = Some authzObjectVerifyStandard \<and>
   fHandleAuthorized (Build b) = Some authzHandleAuthorizedStandard \<and>
   fObjectVerify (Build b) = fObjectVerify (Build b') \<and>
   fHandleAuthorized (Build b) = fHandleAuthorized (Build b') \<and>
   (impl b = AuthzImplLegacy \<longrightarrow>
      fObjectGet (Build b) = Some authzGetObjectImplLegacy \<and>
      fHandleUnauthorized (Build b) = Some authzHandleUnauthorizedImplLegacy) \<and>
   (impl b = AuthzImplForwardAuth \<longrightarrow>
      fObjectGet (Build b) = Some authzGetObjectImplForwardAuth \<and>
      fHandleUnauthorized (Build b) = Some authzHandleUnauthorizedImplForwardAuth) \<and>
   (impl b = AuthzImplAuthRequest \<longrightarrow>
      fObjectGet (Build b) = Some authzGetObjectImplAuthRequest \<and>
      fHandleUnauthorized (Build b) = Some authzHandleUnauthorizedImplAuthRequest)"
  by (cases "impl b"; cases "impl b'") (simp_all add: Build_def Let_def)

theorem Build_bindings_witness:
  "fObjectVerify (Build (WithImplementationLegacy (NewAuthzBuilder example_extern))) =
     fObjectVerify (Build (WithImplementationAuthRequest (NewAuthzBuilder example_extern))) \<and>
   fHandleAuthorized (Build (WithImplementationLegacy (NewAuthzBuilder example_extern))) =
     fHandleAuthorized (Build (WithImplementationAuthRequest (NewAuthzBuilder example_extern))) \<and>
   fObjectGet (Build (WithImplementationLegacy (NewAuthzBuilder example_extern))) =
     Some authzGetObjectImplLegacy \<and>
   fHandleUnauthorized (Build (WithImplementationLegacy (NewAuthzBuilder example_extern))) =
     Some authzHandleUnauthorizedImplLegacy \<and>
   fObjectGet (Build (WithImplementationForwardAuth (NewAuthzBuilder example_extern))) =
     Some authzGetObjectImplForwardAuth \<and>
   fHandleUnauthorized (Build (WithImplementationForwardAuth (NewAuthzBuilder example_extern))) =
     Some authzHandleUnauthorizedImplForwardAuth \<and>
   fObjectGet (Build (WithImplementationAuthRequest (NewAuthzBuilder example_extern))) =
     Some authzGetObjectImplAuthRequest \<and>
   fHandleUnauthorized (Build (WithImplementationAuthRequest (NewAuthzBuilder example_extern))) =
     Some authzHandleUnauthorizedImplAuthRequest"
  using
    Build_bindings
      [of "WithImplementationLegacy (NewAuthzBuilder example_extern)"
          "WithImplementationAuthRequest (NewAuthzBuilder example_extern)"]
    Build_bindings
      [of "WithImplementationForwardAuth (NewAuthzBuilder example_extern)"
          "WithImplementationLegacy (NewAuthzBuilder example_extern)"]
    Build_bindings
      [of "WithImplementationAuthRequest (NewAuthzBuilder example_extern)"
          "WithImplementationLegacy (NewAuthzBuilder example_extern)"]
  by (simp add: WithImplementationLegacy_def WithImplementationForwardAuth_def
      WithImplementationAuthRequest_def)

text \<open>
  C8. Calling \<open>WithConfig\<close> with a nil configuration returns the builder with every
  field unchanged: the config, the strategy list and the implementation are exactly as
  before the call.
\<close>

theorem WithConfig_nil_unchanged:
  "WithConfig x None b = b"
  by (simp add: WithConfig_def)

theorem WithConfig_nil_unchanged_witness:
  "WithConfig example_extern None
     (WithStrategyCookie 0 (WithImplementationAuthRequest (NewAuthzBuilder example_extern))) =
   WithStrategyCookie 0 (WithImplementationAuthRequest (NewAuthzBuilder example_extern))"
  by (rule WithConfig_nil_unchanged)

section \<open>Properties of getWebAuthnUser\<close>

text \<open>
  C9. \<open>getWebAuthnUser\<close> returns an error, and no user, exactly when loading the
  devices of the session's user from the storage provider returns that error.
  Otherwise it returns the user whose \<open>Username\<close> is that of the session, whose
  \<open>Devices\<close> are the loaded ones, and whose \<open>DisplayName\<close> is that of the session,
  or the \<open>Username\<close> when the session's \<open>DisplayName\<close> is the empty string; so the
  \<open>DisplayName\<close> returned is not empty when the \<open>Username\<close> is not.
\<close>

theorem getWebAuthnUser_result:
  "(\<forall>err. (getWebAuthnUser load s = Inl err) = (load (session_Username s) = Inl err)) \<and>
   (\<forall>devices. load (session_Username s) = Inr devices \<longrightarrow>
      getWebAuthnUser load s =
        Inr \<lparr>Username = session_Username s,
             DisplayName = (if session_DisplayName s = [] then session_Username s
                            else session_DisplayName s),
             Devices = devices\<rparr>) \<and>
   (\<forall>user. getWebAuthnUser load s = Inr user \<longrightarrow>
      Username user = session_Username s \<and>
      (session_DisplayName s \<noteq> [] \<longrightarrow> DisplayName user = session_DisplayName s) \<and>
      (session_DisplayName s = [] \<longrightarrow> DisplayName user = Username user) \<and>
      (Username user \<noteq> [] \<longrightarrow> DisplayName user \<noteq> []))"
  by (cases "load (session_Username s)") (auto simp: getWebAuthnUser_def Let_def)

theorem getWebAuthnUser_result_witness:
  "getWebAuthnUser (\<lambda>u. if u = ''john'' then Inr [1::nat, 2] else Inl (errors_New ''no such user''))
     \<lparr>session_Username = ''john'', session_DisplayName = []\<rparr> =
     Inr \<lparr>Username = ''john'', DisplayName = ''john'', Devices = [1, 2]\<rparr> \<and>
   getWebAuthnUser (\<lambda>u. if u = ''john'' then Inr [1::nat, 2] else Inl (errors_New ''no such user''))
     \<lparr>session_Username = ''harry'', session_DisplayName = ''Harry''\<rparr> =
     Inl (errors_New ''no such user'')"
  using
    getWebAuthnUser_result
      [of "\<lambda>u. if u = ''john'' then Inr [1::nat, 2] else Inl (errors_New ''no such user'')"
          "\<lparr>session_Username = ''john'', session_DisplayName = []\<rparr>"]
    getWebAuthnUser_result
      [of "\<lambda>u. if u = ''john'' then Inr [1::nat, 2] else Inl (errors_New ''no such user'')"
          "\<lparr>session_Username = ''harry'', session_DisplayName = ''Harry''\<rparr>"]
  by simp

section \<open>Properties of LoadPreferred2FAMethod\<close>

text \<open>
  C10. \<open>LoadPreferred2FAMethod\<close> returns the stored method and a nil error when the
  query succeeds; the empty string and a nil error when the database reports
  \<open>sql.ErrNoRows\<close> (by itself or wrapped, as \<open>errors.Is\<close> finds it); and the empty
  string and an error that is not nil and wraps the database's error for any other
  failure.
\<close>

theorem LoadPreferred2FAMethod_result:
  "(\<forall>method. db_GetContext p (sqlSelectPreferred2FAMethod p) [username] = Inr method \<longrightarrow>
      LoadPreferred2FAMethod p username = (method, None)) \<and>
   (db_GetContext p (sqlSelectPreferred2FAMethod p) [username] = Inl sql_ErrNoRows \<longrightarrow>
      LoadPreferred2FAMethod p username = ([], None)) \<and>
   (\<forall>err. db_GetContext p (sqlSelectPreferred2FAMethod p) [username] = Inl err \<and>
          errors_Is err sql_ErrNoRows \<longrightarrow>
      LoadPreferred2FAMethod p username = ([], None)) \<and>
   (\<forall>err. db_GetContext p (sqlSelectPreferred2FAMethod p) [username] = Inl err \<and>
          \<not> errors_Is err sql_ErrNoRows \<longrightarrow>
      (\<exists>wrapped. LoadPreferred2FAMethod p username = ([], Some wrapped) \<and>
                 errors_Unwrap wrapped = Some err \<and> errors_Is wrapped err))"
  by (cases "db_GetContext p (sqlSelectPreferred2FAMethod p) [username]")
     (auto simp: LoadPreferred2FAMethod_def errors_Is_refl)

theorem LoadPreferred2FAMethod_result_witness:
  "LoadPreferred2FAMethod
     \<lparr>db_GetContext =
        (\<lambda>q args. if args = [''john''] then Inr ''totp''
                  else if args = [''harry''] then Inl sql_ErrNoRows
                  else Inl (errors_New ''connection refused'')),
      sqlSelectPreferred2FAMethod = ''SELECT''\<rparr> ''john'' = (''totp'', None) \<and>
   LoadPreferred2FAMethod
     \<lparr>db_GetContext =
        (\<lambda>q args. if args = [''john''] then Inr ''totp''
                  else if args = [''harry''] then Inl sql_ErrNoRows
                  else Inl (errors_New ''connection refused'')),
      sqlSelectPreferred2FAMethod = ''SELECT''\<rparr> ''harry'' = ([], None) \<and>
   (\<exists>wrapped.
      LoadPreferred2FAMethod
        \<lparr>db_GetContext =
           (\<lambda>q args. if args = [''john''] then Inr ''totp''
                     else if args = [''harry''] then Inl sql_ErrNoRows
                     else Inl (errors_New ''connection refused'')),
         sqlSelectPreferred2FAMethod = ''SELECT''\<rparr> ''james'' = ([], Some wrapped) \<and>
      errors_Unwrap wrapped = Some (errors_New ''connection refused''))"
  using
    LoadPreferred2FAMethod_result
      [of "\<lparr>db_GetContext =
             (\<lambda>q args. if args = [''john''] then Inr ''totp''
                       else if args = [''harry''] then Inl sql_ErrNoRows
                       else Inl (errors_New ''connection refused'')),
           sqlSelectPreferred2FAMethod = ''SELECT''\<rparr>" "''john''"]
    LoadPreferred2FAMethod_result
      [of "\<lparr>db_GetContext =
             (\<lambda>q args. if args = [''john''] then Inr ''totp''
                       else if args = [''harry''] then Inl sql_ErrNoRows
                       else Inl (errors_New ''connection refused'')),
           sqlSelectPreferred2FAMethod = ''SELECT''\<rparr>" "''harry''"]
    LoadPreferred2FAMethod_result
      [of "\<lparr>db_GetContext =
             (\<lambda>q args. if args = [''john''] then Inr ''totp''
                       else if args = [''harry''] then Inl sql_ErrNoRows
                       else Inl (errors_New ''connection refused'')),
           sqlSelectPreferred2FAMethod = ''SELECT''\<rparr>" "''james''"]
  by auto

end
